theory Spec2Isabelle
  imports Complex_Main
begin

section \<open>The scoring core of the tension index dashboard (app.py)\<close>

text \<open>
  The calculations of \<^verbatim>\<open>app.py\<close> are embedded function by function. Python's
  \<^verbatim>\<open>float\<close> is modelled by \<^typ>\<open>real\<close>: arithmetic is exact, every value is finite and
  there is no NaN, so the theorems on this model are about the formulas of the program
  and not about the rounding of IEEE doubles. Where the rounding decides a claim (the
  clamping of the geopolitical score), the function is embedded a second time on doubles,
  with the rounding of every operation written out. Python's \<^verbatim>\<open>int\<close> is \<^typ>\<open>int\<close>, a \<^verbatim>\<open>str\<close> is a
  \<^typ>\<open>string\<close>, a \<^verbatim>\<open>dict\<close> read with \<^verbatim>\<open>.get\<close> is a map, and a \<^verbatim>\<open>dict\<close> that is
  iterated is an association list in insertion order. What can raise in Python is a
  branch of the model that returns an error value.
\<close>

subsection \<open>Errors and dictionaries\<close>

datatype py_error = ValueError | ZeroDivisionError | OverflowError

text \<open>\<^verbatim>\<open>d.get(k, default)\<close>\<close>

definition dict_get :: "('k \<rightharpoonup> 'v) \<Rightarrow> 'k \<Rightarrow> 'v \<Rightarrow> 'v" where
  "dict_get d k dflt = (case d k of None \<Rightarrow> dflt | Some v \<Rightarrow> v)"

subsection \<open>ASSETS and TIMEFRAME_WEIGHTS (lines 14-29)\<close>

text \<open>
  Of an asset's entry the calculations read \<^verbatim>\<open>weight\<close> and \<^verbatim>\<open>direction\<close> only; the
  display entries \<^verbatim>\<open>emoji\<close>, \<^verbatim>\<open>color\<close> and \<^verbatim>\<open>tooltip\<close> are left out.
\<close>

record asset_info =
  name :: string
  weight :: real
  direction :: int

definition ASSETS :: "(string \<times> asset_info) list" where
  "ASSETS =
    [(''CL=F'', \<lparr>name = ''Crude Oil'', weight = 0.30, direction = 1\<rparr>),
     (''GC=F'', \<lparr>name = ''Gold'', weight = 0.25, direction = 1\<rparr>),
     (''BTC-USD'', \<lparr>name = ''Bitcoin'', weight = 0.18, direction = - 1\<rparr>),
     (''LMT'', \<lparr>name = ''Lockheed Martin'', weight = 0.08, direction = 1\<rparr>),
     (''RTX'', \<lparr>name = ''Raytheon'', weight = 0.07, direction = 1\<rparr>),
     (''^VIX'', \<lparr>name = ''VIX Fear Index'', weight = 0.12, direction = 1\<rparr>)]"

definition TIMEFRAME_WEIGHTS :: "(string \<times> real) list" where
  "TIMEFRAME_WEIGHTS = [(''1h'', 0.10), (''4h'', 0.30), (''1d'', 0.40), (''1wk'', 0.20)]"

subsection \<open>The observations (lines 140-144)\<close>

text \<open>
  \<^verbatim>\<open>all_data[ticker] = {"data": d, "price": p}\<close>, where \<^verbatim>\<open>d\<close> maps a timeframe to a
  percentage change. \<^verbatim>\<open>calculate_market_raw\<close> reads it with \<^verbatim>\<open>.get\<close> at every level, so
  a ticker, the \<^verbatim>\<open>"data"\<close> key of an entry and a timeframe may each be absent.
\<close>

record asset_entry =
  data :: "(string \<rightharpoonup> real) option"
  price :: real

type_synonym all_data = "string \<rightharpoonup> asset_entry"

subsection \<open>calculate_market_raw (lines 55-62)\<close>

text \<open>\<^verbatim>\<open>all_data.get(ticker, {}).get("data", {})\<close>\<close>

definition asset_data :: "all_data \<Rightarrow> string \<Rightarrow> (string \<rightharpoonup> real)" where
  "asset_data all_data ticker =
     (case all_data ticker of
        None \<Rightarrow> Map.empty
      | Some entry \<Rightarrow> (case data entry of None \<Rightarrow> Map.empty | Some d \<Rightarrow> d))"

text \<open>
  \<^verbatim>\<open>sum(asset_data.get(tf, 0.0) * info["direction"] * TIMEFRAME_WEIGHTS[tf]
         for tf in TIMEFRAME_WEIGHTS)\<close>:
  the iteration over the keys followed by the lookup of each key is the iteration over the
  pairs of the dictionary.
\<close>

definition weighted :: "(string \<rightharpoonup> real) \<Rightarrow> asset_info \<Rightarrow> real" where
  "weighted d info =
     sum_list (map (\<lambda>(tf, w). dict_get d tf 0.0 * real_of_int (direction info) * w)
                   TIMEFRAME_WEIGHTS)"

text \<open>The loop over \<^verbatim>\<open>ASSETS.items()\<close>, with \<^verbatim>\<open>total\<close> as its accumulator \<open>total'\<close>.\<close>

fun market_loop :: "all_data \<Rightarrow> (string \<times> asset_info) list \<Rightarrow> real \<Rightarrow> real" where
  "market_loop all_data [] total' = total'"
| "market_loop all_data ((ticker, info) # rest) total' =
     market_loop all_data rest
       (total' + weighted (asset_data all_data ticker) info * weight info)"

definition calculate_market_raw :: "all_data \<Rightarrow> real" where
  "calculate_market_raw all_data = market_loop all_data ASSETS 0.0"

subsection \<open>normalize_market (lines 64-69)\<close>

text \<open>\<^verbatim>\<open>math.log1p(x)\<close> is \<open>ln (1 + x)\<close>; it raises \<^verbatim>\<open>ValueError\<close> for \<open>x \<le> -1\<close>.\<close>

definition log1p :: "real \<Rightarrow> py_error + real" where
  "log1p x = (if x \<le> - 1 then Inl ValueError else Inr (ln (1 + x)))"

text \<open>Division of floats raises \<^verbatim>\<open>ZeroDivisionError\<close> on a zero divisor.\<close>

definition py_div :: "real \<Rightarrow> real \<Rightarrow> py_error + real" where
  "py_div a b = (if b = 0 then Inl ZeroDivisionError else Inr (a / b))"

definition normalize_market :: "real \<Rightarrow> py_error + real" where
  "normalize_market raw =
     (if raw \<ge> 0 then Inr (min 100 (25 + (raw / 10) * 75))
      else
        (case log1p (\<bar>raw\<bar> * 2) of
           Inl e \<Rightarrow> Inl e
         | Inr a \<Rightarrow>
            (case log1p 20 of
               Inl e \<Rightarrow> Inl e
             | Inr b \<Rightarrow>
                (case py_div a b of
                   Inl e \<Rightarrow> Inl e
                 | Inr q \<Rightarrow> (let decay = q * 25 in Inr (max 0 (25 - decay)))))))"

subsection \<open>calculate_geo_score (lines 71-78)\<close>

definition military_map :: "(string \<times> int) list" where
  "military_map =
     [(''Low'', 0), (''Moderate'', 15), (''High'', 25), (''Extreme'', 32),
      (''Unprecedented'', 40)]"

definition idf_map :: "(string \<times> int) list" where
  "idf_map = [(''Low'', 0), (''Moderate'', 8), (''High'', 15)]"

text \<open>The four local variables of the function, each as a function of its input.\<close>

definition carrier_score :: "int \<Rightarrow> real" where
  "carrier_score carriers = real_of_int (min carriers 4) * 8.75"

definition military_score :: "string \<Rightarrow> int" where
  "military_score us_military = dict_get (map_of military_map) us_military 25"

definition idf_score :: "string \<Rightarrow> int" where
  "idf_score idf_alert = dict_get (map_of idf_map) idf_alert 8"

definition sentiment_score :: "real \<Rightarrow> real" where
  "sentiment_score sentiment = (sentiment / 10) * 10"

definition calculate_geo_score :: "int \<Rightarrow> string \<Rightarrow> string \<Rightarrow> real \<Rightarrow> real" where
  "calculate_geo_score carriers us_military idf_alert sentiment =
     carrier_score carriers + real_of_int (military_score us_military)
       + real_of_int (idf_score idf_alert) + sentiment_score sentiment"

subsection \<open>get_progress_color (lines 80-85)\<close>

definition get_progress_color :: "real \<Rightarrow> real \<Rightarrow> py_error + string" where
  "get_progress_color value max_val =
     (case py_div value max_val of
        Inl e \<Rightarrow> Inl e
      | Inr norm' \<Rightarrow>
          Inr (if norm' < 0.3 then ''#10b981''
               else if norm' < 0.6 then ''#facc15''
               else if norm' < 0.85 then ''#fb923c''
               else ''#ef4444''))"

subsection \<open>The final index and its level (lines 146-156)\<close>

definition final_index :: "real \<Rightarrow> real \<Rightarrow> real" where
  "final_index market_norm geo_score = 0.7 * market_norm + 0.3 * geo_score"

text \<open>
  The pair \<^verbatim>\<open>(level_text, level_color)\<close>. Each label of the source starts with a
  coloured-circle emoji and a space, which are left out here.
\<close>

definition level :: "real \<Rightarrow> string \<times> string" where
  "level x =
     (if x < 30 then (''Low Tension'', ''#10b981'')
      else if x < 60 then (''Moderate Tension'', ''#facc15'')
      else if x < 80 then (''Elevated Tension'', ''#fb923c'')
      else (''High Tension'', ''#ef4444''))"

definition level_text :: "real \<Rightarrow> string" where
  "level_text x = fst (level x)"

definition level_color :: "real \<Rightarrow> string" where
  "level_color x = snd (level x)"

text \<open>The values the module computes at lines 146-156, from the inputs it has then.\<close>

record calculations =
  market_raw :: real
  market_norm :: real
  geo_score :: real
  final :: real
  lvl_text :: string
  lvl_color :: string

definition run_calculations ::
  "all_data \<Rightarrow> int \<Rightarrow> string \<Rightarrow> string \<Rightarrow> real \<Rightarrow> py_error + calculations" where
  "run_calculations all_data carriers us_military idf_alert sentiment =
     (let raw = calculate_market_raw all_data in
      case normalize_market raw of
        Inl e \<Rightarrow> Inl e
      | Inr norm' \<Rightarrow>
          (let geo = calculate_geo_score carriers us_military idf_alert sentiment;
               fi = final_index norm' geo
           in Inr \<lparr>market_raw = raw, market_norm = norm', geo_score = geo, final = fi,
                    lvl_text = level_text fi, lvl_color = level_color fi\<rparr>))"

subsection \<open>Missing observations, as the specification words them\<close>

text \<open>
  The definitions of this subsection are not code of the program. The first two say
  what the specification means by "the weighted sum over the remaining data" and by
  "each missing change is treated as 0.0", and are compared with
  \<open>calculate_market_raw\<close> below; the last two describe the flat market of its end-to-end
  example. A change is missing when \<open>asset_data all_data ticker tf = None\<close>: the ticker,
  the data of its entry, or the timeframe is absent.
\<close>

text \<open>One term per change that is present, in the order of the two loops.\<close>

definition observed_terms :: "all_data \<Rightarrow> real list" where
  "observed_terms all_data =
     concat (map (\<lambda>(ticker, info).
       concat (map (\<lambda>(tf, w).
         (case asset_data all_data ticker tf of
            None \<Rightarrow> []
          | Some change \<Rightarrow> [change * real_of_int (direction info) * w * weight info]))
         TIMEFRAME_WEIGHTS))
       ASSETS)"

text \<open>The observations with the change 0.0 written wherever one is missing.\<close>

definition fill_missing :: "all_data \<Rightarrow> all_data" where
  "fill_missing all_data =
     (\<lambda>ticker. Some \<lparr>data = Some (\<lambda>tf. Some (dict_get (asset_data all_data ticker) tf 0.0)),
                     price = (case all_data ticker of None \<Rightarrow> 0.0 | Some entry \<Rightarrow> price entry)\<rparr>)"

text \<open>
  "Every instrument's change is 0.0 over every timeframe": each ticker of \<open>ASSETS\<close> has
  each timeframe of \<open>TIMEFRAME_WEIGHTS\<close>, with the change 0.0.
\<close>

definition every_change_zero :: "all_data \<Rightarrow> bool" where
  "every_change_zero all_data =
     list_all (\<lambda>(ticker, info).
        list_all (\<lambda>(tf, w). asset_data all_data ticker tf = Some 0.0) TIMEFRAME_WEIGHTS)
       ASSETS"

text \<open>The observations of a flat market: every ticker, every timeframe, every change 0.0.\<close>

definition flat_market :: all_data where
  "flat_market =
     map_of (map (\<lambda>(ticker, info).
                    (ticker, \<lparr>data = Some (map_of (map (\<lambda>(tf, w). (tf, 0.0)) TIMEFRAME_WEIGHTS)),
                              price = 0.0\<rparr>))
                 ASSETS)"

subsection \<open>calculate_geo_score on doubles (lines 71-78)\<close>

text \<open>
  A finite double is modelled by the real number it stands for (the sign of a zero is not
  kept), and \<open>NotFinite\<close> stands for an infinity or a NaN. An operation computes the exact
  result and rounds it to the nearest double, a tie going to the double whose last bit is
  even: a double has 53 significant bits, so the spacing of the doubles around \<open>x\<close> is 2
  to the power \<open>\<lfloor>log 2 \<bar>x\<bar>\<rfloor> - 52\<close>, and never less than 2 to the power -1074 (the
  subnormal numbers). A rounded result of magnitude 2 to the power 1024 or more is not
  finite.
\<close>

text \<open>The nearest integer, a tie going to the even one.\<close>

definition round_even :: "real \<Rightarrow> int" where
  "round_even q =
     (let f = \<lfloor>q\<rfloor>; d = q - of_int f in
      if d < 1 / 2 then f else if 1 / 2 < d then f + 1 else if even f then f else f + 1)"

text \<open>The spacing of the doubles around \<open>x\<close>.\<close>

definition ulp :: "real \<Rightarrow> real" where
  "ulp x = 2 powi (max (\<lfloor>log 2 \<bar>x\<bar>\<rfloor> - 52) (- 1074))"

text \<open>The nearest double, were the exponent unbounded above.\<close>

definition rnd :: "real \<Rightarrow> real" where
  "rnd x = (if x = 0 then 0 else of_int (round_even (x / ulp x)) * ulp x)"

datatype f64 = Finite real | NotFinite

definition to_f64 :: "real \<Rightarrow> f64" where
  "to_f64 x = (if \<bar>rnd x\<bar> < 2 ^ 1024 then Finite (rnd x) else NotFinite)"









section \<open>Auxiliary facts\<close>

lemma market_loop_sum:
  "market_loop all_data xs t =
     t + sum_list (map (\<lambda>(ticker, info). weighted (asset_data all_data ticker) info * weight info) xs)"
  by (induction xs arbitrary: t) auto

lemma sum_list_concat_map:
  fixes f :: "'a \<Rightarrow> real list"
  shows "sum_list (concat (map f xs)) = sum_list (map (\<lambda>x. sum_list (f x)) xs)"
  by (induction xs) auto

lemma weighted_terms:
  "weighted d info * weight info =
     sum_list (map (\<lambda>p. sum_list (case d (fst p) of None \<Rightarrow> []
                      | Some c \<Rightarrow> [c * real_of_int (direction info) * snd p * weight info]))
                   TIMEFRAME_WEIGHTS)"
proof -
  have "weighted d info * weight info =
        sum_list (map (\<lambda>p. dict_get d (fst p) 0 * real_of_int (direction info) * snd p * weight info)
                      TIMEFRAME_WEIGHTS)"
    by (simp add: weighted_def sum_list_mult_const split_def)
  also have "\<dots> = sum_list (map (\<lambda>p. sum_list (case d (fst p) of None \<Rightarrow> []
                      | Some c \<Rightarrow> [c * real_of_int (direction info) * snd p * weight info]))
                   TIMEFRAME_WEIGHTS)"
    by (rule arg_cong [where f = sum_list], rule map_cong)
       (auto simp: dict_get_def split: option.splits)
  finally show ?thesis .
qed

lemma raw_observed: "calculate_market_raw all_data = sum_list (observed_terms all_data)"
  by (simp add: calculate_market_raw_def market_loop_sum observed_terms_def
      sum_list_concat_map o_def split_def weighted_terms)

lemma asset_data_fill:
  "dict_get (asset_data (fill_missing all_data) ticker) tf 0 = dict_get (asset_data all_data ticker) tf 0"
  by (simp add: fill_missing_def asset_data_def dict_get_def)

lemma raw_fill: "calculate_market_raw (fill_missing all_data) = calculate_market_raw all_data"
  by (simp add: calculate_market_raw_def market_loop_sum weighted_def asset_data_fill)

lemma normalize_market_neg:
  "raw < 0 \<Longrightarrow> normalize_market raw = Inr (max 0 (25 - (ln (1 + \<bar>raw\<bar> * 2) / ln 21) * 25))"
  by (simp add: normalize_market_def log1p_def py_div_def Let_def)

lemma normalize_market_range:
  "\<exists>s. normalize_market raw = Inr s \<and> 0 \<le> s \<and> s \<le> 100"
proof (cases "0 \<le> raw")
  case True
  then show ?thesis by (simp add: normalize_market_def)
next
  case False
  then have neg: "raw < 0" by simp
  have "0 \<le> ln (1 + \<bar>raw\<bar> * 2)" by simp
  then have "0 \<le> (ln (1 + \<bar>raw\<bar> * 2) / ln 21) * 25" by simp
  then have "max 0 (25 - (ln (1 + \<bar>raw\<bar> * 2) / ln 21) * 25) \<le> 100" by linarith
  then show ?thesis
    by (simp add: normalize_market_neg [OF neg])
qed

text \<open>The definitions behind the geopolitical score and the level, for evaluation.\<close>

lemmas geo_defs = calculate_geo_score_def carrier_score_def military_score_def idf_score_def
  sentiment_score_def military_map_def idf_map_def dict_get_def

lemmas level_defs = level_text_def level_color_def level_def

lemma raw_no_data: "calculate_market_raw Map.empty = 0"
  by (simp add: calculate_market_raw_def ASSETS_def weighted_def TIMEFRAME_WEIGHTS_def
      asset_data_def dict_get_def)

lemma run_no_data:
  "run_calculations Map.empty 2 ''Extreme'' ''High'' 8.5 =
     Inr \<lparr>market_raw = 0, market_norm = 25, geo_score = 73, final = 39.4,
          lvl_text = ''Moderate Tension'', lvl_color = ''#facc15''\<rparr>"
  by (simp add: run_calculations_def raw_no_data normalize_market_def final_index_def Let_def
      geo_defs level_defs)

lemma sum_list_all_zero:
  fixes f :: "'a \<Rightarrow> real"
  shows "(\<And>x. x \<in> set xs \<Longrightarrow> f x = 0) \<Longrightarrow> sum_list (map f xs) = 0"
  by (induction xs) auto

lemma weighted_flat:
  assumes "\<forall>(tf, w) \<in> set TIMEFRAME_WEIGHTS. dict_get d tf 0 = 0"
  shows "weighted d info = 0"
  unfolding weighted_def
proof (rule sum_list_all_zero)
  fix p assume "p \<in> set TIMEFRAME_WEIGHTS"
  with assms have "dict_get d (fst p) 0 = 0" by (cases p) auto
  then show "(case p of (tf, w) \<Rightarrow> dict_get d tf 0.0 * real_of_int (direction info) * w) = 0"
    by (simp add: split_def)
qed

lemma raw_flat:
  assumes "every_change_zero all_data"
  shows "calculate_market_raw all_data = 0"
proof -
  from assms have flat: "\<And>ticker info tf w.
      (ticker, info) \<in> set ASSETS \<Longrightarrow> (tf, w) \<in> set TIMEFRAME_WEIGHTS
        \<Longrightarrow> asset_data all_data ticker tf = Some 0"
    by (fastforce simp: every_change_zero_def list_all_iff)
  have "sum_list (map (\<lambda>(ticker, info). weighted (asset_data all_data ticker) info * weight info) ASSETS) = 0"
  proof (rule sum_list_all_zero)
    fix p assume p: "p \<in> set ASSETS"
    have "\<forall>(tf, w) \<in> set TIMEFRAME_WEIGHTS. dict_get (asset_data all_data (fst p)) tf 0 = 0"
    proof (clarify)
      fix tf w assume "(tf, w) \<in> set TIMEFRAME_WEIGHTS"
      with flat [of "fst p" "snd p" tf w] p have "asset_data all_data (fst p) tf = Some 0" by simp
      then show "dict_get (asset_data all_data (fst p)) tf 0 = 0" by (simp add: dict_get_def)
    qed
    then have "weighted (asset_data all_data (fst p)) (snd p) = 0" by (rule weighted_flat)
    then show "(case p of (ticker, info) \<Rightarrow> weighted (asset_data all_data ticker) info * weight info) = 0"
      by (simp add: split_def)
  qed
  then show ?thesis by (simp add: calculate_market_raw_def market_loop_sum)
qed

lemma flat_market_is_flat: "every_change_zero flat_market"
  by (simp add: every_change_zero_def flat_market_def ASSETS_def TIMEFRAME_WEIGHTS_def asset_data_def)

lemma military_score_bounds: "0 \<le> military_score us_military \<and> military_score us_military \<le> 40"
  by (simp add: military_score_def military_map_def dict_get_def)

lemma idf_score_bounds: "0 \<le> idf_score idf_alert \<and> idf_score idf_alert \<le> 15"
  by (simp add: idf_score_def idf_map_def dict_get_def)

lemma weighted_absent: "all_data ticker = None \<Longrightarrow> weighted (asset_data all_data ticker) info = 0"
  by (simp add: weighted_def asset_data_def dict_get_def split_def sum_list_all_zero)

lemma final_index_bounds:
  "0 \<le> m \<Longrightarrow> m \<le> 100 \<Longrightarrow> 0 \<le> g \<Longrightarrow> g \<le> 100
     \<Longrightarrow> 0 \<le> final_index m g \<and> final_index m g \<le> 100"
  by (simp add: final_index_def)

lemma geo_score_in_range:
  assumes "0 \<le> carriers" and "0 \<le> sentiment" and "sentiment \<le> 10"
  shows "0 \<le> calculate_geo_score carriers us_military idf_alert sentiment
       \<and> calculate_geo_score carriers us_military idf_alert sentiment \<le> 100"
proof -
  have c: "0 \<le> carrier_score carriers \<and> carrier_score carriers \<le> 35"
    using assms(1) by (simp add: carrier_score_def min_def)
  have s: "sentiment_score sentiment = sentiment"
    by (simp add: sentiment_score_def)
  note m = military_score_bounds [of us_military]
  note i = idf_score_bounds [of idf_alert]
  from c s m i assms show ?thesis
    by (simp add: calculate_geo_score_def)
qed

subsection \<open>Rounding to a double\<close>







lemma ulp_pos [simp]: "0 < ulp x"
  by (simp add: ulp_def)

lemma ulp_nonneg [simp]: "0 \<le> ulp x"
  using ulp_pos [of x] by linarith

lemma ulp_nonzero [simp]: "ulp x \<noteq> 0"
  using ulp_pos [of x] by linarith









lemma rnd_zero [simp]: "rnd 0 = 0"
  by (simp add: rnd_def)




lemma to_f64_cases: "to_f64 x = NotFinite \<or> to_f64 x = Finite (rnd x)"
  by (simp add: to_f64_def)




























section \<open>The final index\<close>

text \<open>
  C1. For a market score and a geopolitical score each in [0,100], the final index is
  0.7 times the first plus 0.3 times the second, and this sum lies in [0,100]. The
  combining stage does not clamp: the index computed by the module is this sum of the
  two scores it computed, whatever they are.
\<close>

theorem final_index_in_range:
  assumes "0 \<le> m" and "m \<le> 100" and "0 \<le> g" and "g \<le> 100"
  shows "final_index m g = 0.7 * m + 0.3 * g
       \<and> 0 \<le> final_index m g \<and> final_index m g \<le> 100
       \<and> (\<forall>r. run_calculations all_data carriers us_military idf_alert sentiment = Inr r
              \<longrightarrow> final r = 0.7 * market_norm r + 0.3 * geo_score r)"
proof -
  have eq: "final_index m g = 0.7 * m + 0.3 * g"
    by (simp add: final_index_def)
  have lo: "0 \<le> final_index m g"
    using assms by (simp add: final_index_def)
  have hi: "final_index m g \<le> 100"
    using assms by (simp add: final_index_def)
  have run: "\<forall>r. run_calculations all_data carriers us_military idf_alert sentiment = Inr r
              \<longrightarrow> final r = 0.7 * market_norm r + 0.3 * geo_score r"
    by (auto simp: run_calculations_def Let_def final_index_def split: sum.splits)
  from eq lo hi run show ?thesis by blast
qed

text \<open>C1 at the scores 100 and 100, and at the index the module computes from no data.\<close>

theorem final_index_in_range_witness:
  "(0::real) \<le> 100 \<and> final_index 100 100 = 100
     \<and> (\<exists>r. run_calculations Map.empty 2 ''Extreme'' ''High'' 8.5 = Inr r
            \<and> final r = 0.7 * market_norm r + 0.3 * geo_score r)"
  using final_index_in_range [where m = 100 and g = 100 and all_data = Map.empty and carriers = 2
      and us_military = "''Extreme''" and idf_alert = "''High''" and sentiment = "8.5"]
    run_no_data
  by simp

text \<open>
  C2. The level of the final index follows half-open bands: [0,30) is Low, [30,60) is
  Moderate, [60,80) is Elevated and [80,100] is High. An index of exactly 30 is Moderate
  and not Low, exactly 60 is Elevated, exactly 80 is High, and 100 is High.
\<close>

theorem level_bands:
  "(0 \<le> x \<and> x < 30 \<longrightarrow> level x = (''Low Tension'', ''#10b981''))
 \<and> (30 \<le> x \<and> x < 60 \<longrightarrow> level x = (''Moderate Tension'', ''#facc15''))
 \<and> (60 \<le> x \<and> x < 80 \<longrightarrow> level x = (''Elevated Tension'', ''#fb923c''))
 \<and> (80 \<le> x \<and> x \<le> 100 \<longrightarrow> level x = (''High Tension'', ''#ef4444''))
 \<and> level_text 30 = ''Moderate Tension'' \<and> level_text 30 \<noteq> ''Low Tension''
 \<and> level_text 60 = ''Elevated Tension''
 \<and> level_text 80 = ''High Tension''
 \<and> level_text 100 = ''High Tension''"
  by (simp add: level_defs)

text \<open>C2 inside each of the four bands.\<close>

theorem level_bands_witness:
  "level 12.5 = (''Low Tension'', ''#10b981'')
 \<and> level 39.4 = (''Moderate Tension'', ''#facc15'')
 \<and> level 79.9 = (''Elevated Tension'', ''#fb923c'')
 \<and> level 93 = (''High Tension'', ''#ef4444'')"
  using level_bands [of "12.5"] level_bands [of "39.4"] level_bands [of "79.9"] level_bands [of 93]
  by simp

section \<open>The normalised market score\<close>

text \<open>
  C3, as the specification states it, fails: the score of a negative raw value is said
  never to reach exactly 0, but the program clamps with \<^verbatim>\<open>max(0, ...)\<close> and the decay
  reaches 25 at raw = -10, where the score is exactly 0.
\<close>

theorem normalize_market_floor_counterexample:
  "(- 10 :: real) < 0 \<and> normalize_market (- 10) = Inr 0"
  by (simp add: normalize_market_neg)

text \<open>
  C3, amended. For negative raw values the score is returned without an error, is
  monotonically non-decreasing in raw and is at least 0; it is exactly 0 for every raw
  of at most -10.
\<close>

theorem normalize_market_negative:
  assumes "r1 \<le> r2" and "r2 < 0"
  shows "\<exists>s1 s2. normalize_market r1 = Inr s1 \<and> normalize_market r2 = Inr s2
           \<and> s1 \<le> s2 \<and> 0 \<le> s1 \<and> (r1 \<le> - 10 \<longrightarrow> s1 = 0)"
proof -
  from assms have n1: "r1 < 0" by simp
  define a1 where "a1 = ln (1 + \<bar>r1\<bar> * 2)"
  define a2 where "a2 = ln (1 + \<bar>r2\<bar> * 2)"
  define d1 where "d1 = (a1 / ln 21) * 25"
  define d2 where "d2 = (a2 / ln 21) * 25"
  have L: "0 < ln (21::real)" by simp
  have e1: "normalize_market r1 = Inr (max 0 (25 - d1))"
    by (simp add: normalize_market_neg [OF n1] d1_def a1_def)
  have e2: "normalize_market r2 = Inr (max 0 (25 - d2))"
    by (simp add: normalize_market_neg [OF assms(2)] d2_def a2_def)
  have "\<bar>r2\<bar> \<le> \<bar>r1\<bar>" using assms by simp
  then have "a2 \<le> a1" by (simp add: a1_def a2_def)
  then have "d2 \<le> d1" unfolding d1_def d2_def
    by (intro mult_right_mono divide_right_mono) simp_all
  then have mono: "max 0 (25 - d1) \<le> max 0 (25 - d2)" by simp
  have lo: "0 \<le> max 0 (25 - d1)" by simp
  have zero: "max 0 (25 - d1) = 0" if "r1 \<le> - 10"
  proof -
    from that have "21 \<le> 1 + \<bar>r1\<bar> * 2" by simp
    then have "ln 21 \<le> a1" by (simp add: a1_def)
    then have "25 \<le> d1" using L by (simp add: d1_def le_divide_eq)
    then show ?thesis by simp
  qed
  from e1 e2 mono lo zero show ?thesis by blast
qed

text \<open>C3 (amended) at the raw values -12 and -1.\<close>

theorem normalize_market_negative_witness:
  "(- 12 :: real) \<le> - 1 \<and> (- 1 :: real) < 0 \<and> (- 12 :: real) \<le> - 10
   \<and> (\<exists>s1 s2. normalize_market (- 12) = Inr s1 \<and> normalize_market (- 1) = Inr s2
           \<and> s1 \<le> s2 \<and> 0 \<le> s1 \<and> s1 = 0)"
  using normalize_market_negative [of "- 12" "- 1"] by simp

text \<open>
  C4. For every raw value that is not negative the score is min(100, 25 + (raw/10)*75);
  it is monotonically non-decreasing in raw, it is exactly 25 at raw = 0, and it is
  exactly 100 for every raw of 10 or more.
\<close>

theorem normalize_market_nonneg:
  assumes "0 \<le> r1" and "r1 \<le> r2"
  shows "normalize_market r1 = Inr (min 100 (25 + (r1 / 10) * 75))
       \<and> (\<exists>s1 s2. normalize_market r1 = Inr s1 \<and> normalize_market r2 = Inr s2 \<and> s1 \<le> s2)
       \<and> normalize_market 0 = Inr 25
       \<and> (10 \<le> r1 \<longrightarrow> normalize_market r1 = Inr 100)"
  using assms by (auto simp: normalize_market_def)

text \<open>C4 at the raw values 4, 10 and 12.\<close>

theorem normalize_market_nonneg_witness:
  "(0::real) \<le> 4 \<and> (4::real) \<le> 10 \<and> (10::real) \<le> 12
   \<and> normalize_market 4 = Inr 55 \<and> normalize_market 10 = Inr 100 \<and> normalize_market 12 = Inr 100"
  using normalize_market_nonneg [of 4 10] normalize_market_nonneg [of 10 12] normalize_market_nonneg [of 12 12]
  by simp

section \<open>The whole calculation on a flat market\<close>

text \<open>
  C5. When every instrument's change is 0.0 over every timeframe and the geopolitical
  inputs are the defaults (2 carriers, military activity "Extreme", alert "High",
  sentiment 8.5), the calculation returns the raw value 0, the market score 25, the
  geopolitical score 73, the final index 39.4 and the level Moderate.
\<close>

theorem flat_market_defaults:
  assumes "every_change_zero all_data"
  shows "run_calculations all_data 2 ''Extreme'' ''High'' 8.5 =
     Inr \<lparr>market_raw = 0, market_norm = 25, geo_score = 73, final = 39.4,
          lvl_text = ''Moderate Tension'', lvl_color = ''#facc15''\<rparr>"
  by (simp add: run_calculations_def raw_flat [OF assms] normalize_market_def final_index_def
      Let_def geo_defs level_defs)

text \<open>C5 on the observations \<open>flat_market\<close>.\<close>

theorem flat_market_defaults_witness:
  "every_change_zero flat_market
 \<and> run_calculations flat_market 2 ''Extreme'' ''High'' 8.5 =
     Inr \<lparr>market_raw = 0, market_norm = 25, geo_score = 73, final = 39.4,
          lvl_text = ''Moderate Tension'', lvl_color = ''#facc15''\<rparr>"
  using flat_market_is_flat flat_market_defaults [OF flat_market_is_flat] by (rule conjI)

section \<open>The geopolitical score\<close>

text \<open>
  C6. The geopolitical score is exactly 100 at the largest inputs (4 carriers,
  "Unprecedented", "High", sentiment 10) and exactly 0 at the smallest (0 carriers, "Low",
  "Low", sentiment 0). The largest values of the four subscores are 35, 40, 15 and 10,
  which add up to 100, so for a carrier count that is not negative and a sentiment in
  [0,10] no subscore exceeds its largest value and the score lies in [0,100], whatever
  the two levels are.
\<close>

theorem geo_score_bounds:
  "calculate_geo_score 4 ''Unprecedented'' ''High'' 10.0 = 100
 \<and> calculate_geo_score 0 ''Low'' ''Low'' 0.0 = 0
 \<and> carrier_score 4 = 35 \<and> military_score ''Unprecedented'' = 40
 \<and> idf_score ''High'' = 15 \<and> sentiment_score 10 = 10
 \<and> (0 \<le> carriers \<and> 0 \<le> sentiment \<and> sentiment \<le> 10 \<longrightarrow>
      carrier_score carriers \<le> 35 \<and> military_score us_military \<le> 40
      \<and> idf_score idf_alert \<le> 15 \<and> sentiment_score sentiment \<le> 10
      \<and> 0 \<le> calculate_geo_score carriers us_military idf_alert sentiment
      \<and> calculate_geo_score carriers us_military idf_alert sentiment \<le> 100)"
proof -
  have top: "calculate_geo_score 4 ''Unprecedented'' ''High'' 10.0 = 100"
    by (simp add: geo_defs)
  have bot: "calculate_geo_score 0 ''Low'' ''Low'' 0.0 = 0"
    by (simp add: geo_defs)
  have maxima: "carrier_score 4 = 35 \<and> military_score ''Unprecedented'' = 40
      \<and> idf_score ''High'' = 15 \<and> sentiment_score 10 = 10"
    by (simp add: geo_defs)
  have dom: "carrier_score carriers \<le> 35 \<and> military_score us_military \<le> 40
      \<and> idf_score idf_alert \<le> 15 \<and> sentiment_score sentiment \<le> 10
      \<and> 0 \<le> calculate_geo_score carriers us_military idf_alert sentiment
      \<and> calculate_geo_score carriers us_military idf_alert sentiment \<le> 100"
    if h: "0 \<le> carriers \<and> 0 \<le> sentiment \<and> sentiment \<le> 10"
  proof -
    have c: "carrier_score carriers \<le> 35"
      by (simp add: carrier_score_def min_def)
    have s: "sentiment_score sentiment \<le> 10"
      using h by (simp add: sentiment_score_def)
    from h have "0 \<le> calculate_geo_score carriers us_military idf_alert sentiment
      \<and> calculate_geo_score carriers us_military idf_alert sentiment \<le> 100"
      by (simp add: geo_score_in_range)
    with c s military_score_bounds [of us_military] idf_score_bounds [of idf_alert]
    show ?thesis by simp
  qed
  from top bot maxima dom show ?thesis by blast
qed

text \<open>C6 at 3 carriers, "High", "Moderate" and the sentiment 4.5.\<close>

theorem geo_score_bounds_witness:
  "(0::int) \<le> 3 \<and> (0::real) \<le> 4.5 \<and> (4.5::real) \<le> 10
   \<and> calculate_geo_score 3 ''High'' ''Moderate'' 4.5 = 63.75
   \<and> 0 \<le> calculate_geo_score 3 ''High'' ''Moderate'' 4.5
   \<and> calculate_geo_score 3 ''High'' ''Moderate'' 4.5 \<le> 100"
proof -
  have v: "calculate_geo_score 3 ''High'' ''Moderate'' 4.5 = 63.75"
    by (simp add: geo_defs)
  from geo_score_bounds [of 3 "4.5" "''High''" "''Moderate''"] v show ?thesis by simp
qed

text \<open>
  C7. A military level that is none of Low, Moderate, High, Extreme and Unprecedented
  has the subscore 25, and an alert level that is none of Low, Moderate and High has the
  subscore 8. The scorer does not fail on such a level: it returns the sum of the carrier
  subscore, 25, 8 and the sentiment subscore. (Nothing in lines 71-78 can raise on an
  integer, two strings and a float, so the scorer is a total function here.)
\<close>

theorem unrecognized_levels_default:
  "(us_military \<notin> {''Low'', ''Moderate'', ''High'', ''Extreme'', ''Unprecedented''}
      \<longrightarrow> military_score us_military = 25)
 \<and> (idf_alert \<notin> {''Low'', ''Moderate'', ''High''} \<longrightarrow> idf_score idf_alert = 8)
 \<and> (us_military \<notin> {''Low'', ''Moderate'', ''High'', ''Extreme'', ''Unprecedented''}
      \<and> idf_alert \<notin> {''Low'', ''Moderate'', ''High''}
      \<longrightarrow> calculate_geo_score carriers us_military idf_alert sentiment
           = carrier_score carriers + 25 + 8 + sentiment_score sentiment)"
  by (simp add: calculate_geo_score_def military_score_def idf_score_def military_map_def
      idf_map_def dict_get_def)

text \<open>C7 at the levels "Severe" and "low" (the lookup is case sensitive).\<close>

theorem unrecognized_levels_default_witness:
  "''Severe'' \<notin> {''Low'', ''Moderate'', ''High'', ''Extreme'', ''Unprecedented''}
 \<and> ''low'' \<notin> {''Low'', ''Moderate'', ''High''}
 \<and> military_score ''Severe'' = 25 \<and> idf_score ''low'' = 8
 \<and> calculate_geo_score 2 ''Severe'' ''low'' 8.5 = 59"
proof -
  have v: "carrier_score 2 + 25 + 8 + sentiment_score 8.5 = 59"
    by (simp add: carrier_score_def sentiment_score_def)
  from unrecognized_levels_default [of "''Severe''" "''low''" 2 "8.5"] v show ?thesis by simp
qed




section \<open>Missing observations\<close>

text \<open>
  C8. Whatever is missing from the observations (a timeframe, the data of an entry or a
  whole instrument), the aggregation does not abort and counts each missing change as
  0.0: the raw value is the weighted sum over the changes that are present, it is the raw
  value of the observations with 0.0 written for every missing change, and an instrument
  that is absent contributes 0. The calculation returns a result, whose market score lies
  in [0,100] and whose final index lies in [0,100] when the carrier count is not negative
  and the sentiment is in [0,10].
\<close>

theorem missing_data_is_neutral:
  "calculate_market_raw all_data = sum_list (observed_terms all_data)
 \<and> calculate_market_raw all_data = calculate_market_raw (fill_missing all_data)
 \<and> (all_data ticker = None \<longrightarrow> weighted (asset_data all_data ticker) info * weight info = 0)
 \<and> (\<exists>r. run_calculations all_data carriers us_military idf_alert sentiment = Inr r
        \<and> market_raw r = sum_list (observed_terms all_data)
        \<and> 0 \<le> market_norm r \<and> market_norm r \<le> 100
        \<and> (0 \<le> carriers \<and> 0 \<le> sentiment \<and> sentiment \<le> 10
             \<longrightarrow> 0 \<le> final r \<and> final r \<le> 100))"
proof -
  obtain s where s: "normalize_market (calculate_market_raw all_data) = Inr s"
    and s0: "0 \<le> s" and s100: "s \<le> 100"
    using normalize_market_range by blast
  define g where "g = calculate_geo_score carriers us_military idf_alert sentiment"
  define r where "r = \<lparr>market_raw = calculate_market_raw all_data, market_norm = s, geo_score = g,
        final = final_index s g, lvl_text = level_text (final_index s g),
        lvl_color = level_color (final_index s g)\<rparr>"
  have run: "run_calculations all_data carriers us_military idf_alert sentiment = Inr r"
    by (simp add: run_calculations_def s r_def g_def Let_def)
  have raw: "market_raw r = sum_list (observed_terms all_data)"
    by (simp add: r_def raw_observed)
  have norm: "0 \<le> market_norm r \<and> market_norm r \<le> 100"
    using s0 s100 by (simp add: r_def)
  have fin: "0 \<le> final r \<and> final r \<le> 100"
    if "0 \<le> carriers \<and> 0 \<le> sentiment \<and> sentiment \<le> 10"
  proof -
    from that have "0 \<le> g \<and> g \<le> 100"
      unfolding g_def by (simp add: geo_score_in_range)
    with s0 s100 have "0 \<le> final_index s g \<and> final_index s g \<le> 100"
      by (simp add: final_index_bounds)
    then show ?thesis by (simp add: r_def)
  qed
  have absent: "all_data ticker = None \<longrightarrow> weighted (asset_data all_data ticker) info * weight info = 0"
    by (simp add: weighted_absent)
  from run raw norm fin absent raw_observed [of all_data] raw_fill [of all_data]
  show ?thesis by auto
qed

text \<open>
  C8 on observations that hold one change only, 10 percent for crude oil over one day:
  the raw value is 10 * 1 * 0.40 * 0.30 = 1.2, and gold, which is absent, contributes 0.
\<close>

theorem missing_data_is_neutral_witness:
  "[''CL=F'' \<mapsto> \<lparr>data = Some [''1d'' \<mapsto> 10], price = 70\<rparr>] ''GC=F'' = None
 \<and> (0::int) \<le> 2 \<and> (0::real) \<le> 8.5 \<and> (8.5::real) \<le> 10
 \<and> observed_terms [''CL=F'' \<mapsto> \<lparr>data = Some [''1d'' \<mapsto> 10], price = 70\<rparr>] = [1.2]
 \<and> calculate_market_raw [''CL=F'' \<mapsto> \<lparr>data = Some [''1d'' \<mapsto> 10], price = 70\<rparr>] = 1.2
 \<and> weighted (asset_data [''CL=F'' \<mapsto> \<lparr>data = Some [''1d'' \<mapsto> 10], price = 70\<rparr>] ''GC=F'')
       \<lparr>name = ''Gold'', weight = 0.25, direction = 1\<rparr> = 0
 \<and> run_calculations [''CL=F'' \<mapsto> \<lparr>data = Some [''1d'' \<mapsto> 10], price = 70\<rparr>]
        2 ''Extreme'' ''High'' 8.5 =
     Inr \<lparr>market_raw = 1.2, market_norm = 34, geo_score = 73, final = 45.7,
          lvl_text = ''Moderate Tension'', lvl_color = ''#facc15''\<rparr>"
proof -
  let ?d = "[''CL=F'' \<mapsto> \<lparr>data = Some [''1d'' \<mapsto> 10], price = 70\<rparr>]"
  let ?gold = "\<lparr>name = ''Gold'', weight = 0.25, direction = 1\<rparr>"
  have absent: "?d ''GC=F'' = None" by simp
  have obs: "observed_terms ?d = [1.2]"
    by (simp add: observed_terms_def ASSETS_def TIMEFRAME_WEIGHTS_def asset_data_def)
  note t = missing_data_is_neutral [of ?d "''GC=F''" ?gold 2 "''Extreme''" "''High''" "8.5"]
  from t have "calculate_market_raw ?d = sum_list (observed_terms ?d)" by (rule conjunct1)
  then have raw: "calculate_market_raw ?d = 1.2" by (simp add: obs)
  from t absent have "weighted (asset_data ?d ''GC=F'') ?gold * weight ?gold = 0" by blast
  then have gold: "weighted (asset_data ?d ''GC=F'') ?gold = 0" by simp
  have run: "run_calculations ?d 2 ''Extreme'' ''High'' 8.5 =
     Inr \<lparr>market_raw = 1.2, market_norm = 34, geo_score = 73, final = 45.7,
          lvl_text = ''Moderate Tension'', lvl_color = ''#facc15''\<rparr>"
    by (simp add: run_calculations_def raw normalize_market_def final_index_def Let_def
        geo_defs level_defs)
  from absent obs raw gold run show ?thesis by simp
qed

section \<open>The colour bands of a factor\<close>

text \<open>
  C9. For a maximum above 0 the band of a value follows its ratio to the maximum: below
  0.3 the first colour (calm), from 0.3 and below 0.6 the second (watch), from 0.6 and
  below 0.85 the third (elevated), from 0.85 the fourth (critical). The cut points are
  not those of the level of the final index, which are 30, 60 and 80: 82 of 100 is in the
  third band, while a final index of 82 has the colour of the fourth level; the first two
  cut points agree.
\<close>

theorem progress_color_bands:
  assumes "0 < max_val"
  shows "(value / max_val < 0.3 \<longrightarrow> get_progress_color value max_val = Inr ''#10b981'')
       \<and> (0.3 \<le> value / max_val \<and> value / max_val < 0.6
            \<longrightarrow> get_progress_color value max_val = Inr ''#facc15'')
       \<and> (0.6 \<le> value / max_val \<and> value / max_val < 0.85
            \<longrightarrow> get_progress_color value max_val = Inr ''#fb923c'')
       \<and> (0.85 \<le> value / max_val \<longrightarrow> get_progress_color value max_val = Inr ''#ef4444'')
       \<and> get_progress_color 82 100 = Inr ''#fb923c'' \<and> level_color 82 = ''#ef4444''
       \<and> get_progress_color 30 100 = Inr (level_color 30)
       \<and> get_progress_color 60 100 = Inr (level_color 60)"
proof -
  define q where "q = value / max_val"
  from assms have "py_div value max_val = Inr q"
    by (simp add: py_div_def q_def)
  then have bands: "get_progress_color value max_val =
      Inr (if q < 0.3 then ''#10b981'' else if q < 0.6 then ''#facc15''
           else if q < 0.85 then ''#fb923c'' else ''#ef4444'')"
    by (simp add: get_progress_color_def)
  have a: "q < 0.3 \<longrightarrow> get_progress_color value max_val = Inr ''#10b981''"
    by (simp add: bands)
  have b: "0.3 \<le> q \<and> q < 0.6 \<longrightarrow> get_progress_color value max_val = Inr ''#facc15''"
    by (simp add: bands)
  have c: "0.6 \<le> q \<and> q < 0.85 \<longrightarrow> get_progress_color value max_val = Inr ''#fb923c''"
    by (simp add: bands)
  have d: "0.85 \<le> q \<longrightarrow> get_progress_color value max_val = Inr ''#ef4444''"
    by (simp add: bands)
  have e: "get_progress_color 82 100 = Inr ''#fb923c'' \<and> level_color 82 = ''#ef4444''
       \<and> get_progress_color 30 100 = Inr (level_color 30)
       \<and> get_progress_color 60 100 = Inr (level_color 60)"
    by (simp add: get_progress_color_def py_div_def level_defs)
  from a b c d e show ?thesis unfolding q_def by blast
qed

text \<open>
  C9 at four subscores, each with its maximum: 1 carrier (8.75 of 35), the alert
  "Moderate" (8 of 15), the military level "Extreme" (32 of 40), the sentiment 8.5 (of 10).
\<close>

theorem progress_color_bands_witness:
  "(0::real) < 35 \<and> (0::real) < 15 \<and> (0::real) < 40 \<and> (0::real) < 10
 \<and> get_progress_color 8.75 35 = Inr ''#10b981''
 \<and> get_progress_color 8 15 = Inr ''#facc15''
 \<and> get_progress_color 32 40 = Inr ''#fb923c''
 \<and> get_progress_color 8.5 10 = Inr ''#ef4444''"
  using progress_color_bands [of 35 "8.75"] progress_color_bands [of 15 8]
    progress_color_bands [of 40 32] progress_color_bands [of 10 "8.5"]
  by simp

end
